theory Spec2Isabelle
  imports Complex_Main "HOL-Library.AList" "HOL-Library.Word"
begin

section \<open>Data model\<close>

subsection \<open>Parsed JSON documents\<close>

text \<open>
  Both scripts work on what \<^verbatim>\<open>json.load\<close> returns: \<^verbatim>\<open>None\<close>, a bool, an int
  (unbounded), a float (an IEEE double, kept as its 64 bits), a str, a list, or a dict
  with string keys. A dict is an association list in insertion order; \<^verbatim>\<open>json.load\<close>
  never produces the same key twice.
\<close>

datatype json =
    JNull
  | JBool bool
  | JInt int
  | JFloat "64 word"
  | JString string
  | JArray "json list"
  | JObject "(string \<times> json) list"

subsection \<open>Exceptions\<close>

text \<open>
  The Python exceptions the two scripts can end with. Neither script catches anything,
  so the first exception raised is the outcome of the run. \<open>OSError\<close> stands for a
  write that the operating system cuts short (no space left). \<open>Unmodelled\<close> is not a
  Python exception: it marks a \<^verbatim>\<open>GapCounter\<close> value that is not a flat list of
  integers in the int64 range, where what numpy does (other dtypes, object arrays) is
  outside this development.
\<close>

datatype error =
    FileNotFoundError
  | PermissionError
  | OSError
  | UnicodeDecodeError
  | JSONDecodeError
  | KeyError
  | TypeError
  | ValueError
  | Unmodelled

subsection \<open>Floats computed by numpy\<close>

text \<open>
  The result of \<^verbatim>\<open>np.log\<close> on an int64: negative infinity, not-a-number, or a finite
  double, which is represented by the real number it approximates.
\<close>

datatype np_float = NegInf | NaN | Finite real

subsection \<open>Figures and files\<close>

text \<open>
  What \<^verbatim>\<open>plt.savefig\<close> renders: the title and axis labels set on the axes and the
  points handed to \<^verbatim>\<open>ax.scatter\<close>. The PNG encoding is not modelled; an image file
  holds its figure.
\<close>

record figure =
  title :: string
  xlabel :: string
  ylabel :: string
  points :: "(int \<times> np_float) list"

datatype content = Text string | Png figure

text \<open>
  \<^verbatim>\<open>plot.py\<close> touches two files, both under fixed plain names in its working
  directory: it reads \<^verbatim>\<open>info.json\<close> and writes \<^verbatim>\<open>plot_<PrimesSoFar>.png\<close>. Its
  file system is that directory, a map from a file name to the content of the file.
\<close>

type_synonym fs = "string \<rightharpoonup> content"

text \<open>
  \<^verbatim>\<open>strip_prime_cache.py\<close> opens whatever two paths the command line gives it, so
  its file system keeps apart the spelling of a path and the file it leads to:
  \<^item> \<open>node\<close> resolves a path to the file it leads to, identified by a number (as an
    inode is), whether the file exists already or would be created there. Two spellings
    of one path, or a path and a link to it, resolve to the same number. Where a path
    leads to no file (the empty path, a missing directory, a directory), \<open>node\<close> gives
    the exception that \<^verbatim>\<open>open\<close> raises;
  \<^item> \<open>data\<close> is the content of the files that exist;
  \<^item> \<open>may_read\<close> and \<open>may_write\<close> are the permissions;
  \<^item> \<open>written i t\<close> is the text that reaches file \<open>i\<close> when \<open>t\<close> is written to
    it: \<open>t\<close> itself when the write completes, less when the operating system cuts
    it short.
\<close>

record disk =
  node :: "string \<Rightarrow> error + nat"
  data :: "nat \<rightharpoonup> content"
  may_read :: "nat \<Rightarrow> bool"
  may_write :: "nat \<Rightarrow> bool"
  written :: "nat \<Rightarrow> string \<Rightarrow> string"

section \<open>Library calls\<close>

text \<open>
  \<^verbatim>\<open>with open(path, 'r') as f: val = json.load(f)\<close> in the working directory of
  \<^verbatim>\<open>plot.py\<close>. The parser of the \<^verbatim>\<open>json\<close> module is a parameter \<open>loads\<close>, from the
  text of a file to the parsed document, \<open>None\<close> where the text is not JSON. A
  missing file raises at \<^verbatim>\<open>open\<close>; an image is not text.
\<close>

definition json_load :: "(string \<Rightarrow> json option) \<Rightarrow> fs \<Rightarrow> string \<Rightarrow> error + json" where
  "json_load loads files path =
     (case files path of
        None \<Rightarrow> Inl FileNotFoundError
      | Some (Png _) \<Rightarrow> Inl UnicodeDecodeError
      | Some (Text t) \<Rightarrow>
          (case loads t of None \<Rightarrow> Inl JSONDecodeError | Some v \<Rightarrow> Inr v))"

text \<open>
  \<^verbatim>\<open>open(path, 'r')\<close> and the read of the whole file, on a disk: the path must lead to
  a file, the file must exist, and reading it must be permitted.
\<close>

definition open_r :: "disk \<Rightarrow> string \<Rightarrow> error + content" where
  "open_r d path =
     (case node d path of
        Inl e \<Rightarrow> Inl e
      | Inr i \<Rightarrow>
          (case data d i of
             None \<Rightarrow> Inl FileNotFoundError
           | Some c \<Rightarrow> if may_read d i then Inr c else Inl PermissionError))"

text \<open>
  \<^verbatim>\<open>open(path, 'w')\<close> on a disk: the path must lead to a file, there or to be created,
  and writing it must be permitted. The result is the file that has been opened.
\<close>

definition open_w :: "disk \<Rightarrow> string \<Rightarrow> error + nat" where
  "open_w d path =
     (case node d path of
        Inl e \<Rightarrow> Inl e
      | Inr i \<Rightarrow> if may_write d i then Inr i else Inl PermissionError)"

text \<open>\<^verbatim>\<open>with open(path, 'r') as f: val = json.load(f)\<close> on a disk.\<close>

definition json_load_disk :: "(string \<Rightarrow> json option) \<Rightarrow> disk \<Rightarrow> string \<Rightarrow> error + json" where
  "json_load_disk loads d path =
     (case open_r d path of
        Inl e \<Rightarrow> Inl e
      | Inr (Png _) \<Rightarrow> Inl UnicodeDecodeError
      | Inr (Text t) \<Rightarrow>
          (case loads t of None \<Rightarrow> Inl JSONDecodeError | Some v \<Rightarrow> Inr v))"

text \<open>
  \<^verbatim>\<open>with open(path, 'w') as f: json.dump(val, f)\<close> on a disk. The serialiser of the
  \<^verbatim>\<open>json\<close> module is a parameter \<open>dumps\<close>. When \<^verbatim>\<open>open\<close> raises, nothing is
  changed. Otherwise the file opened loses its old content and holds what reaches it
  of the new text, and the call raises when that is not the whole text.
\<close>

definition json_dump ::
  "(json \<Rightarrow> string) \<Rightarrow> json \<Rightarrow> disk \<Rightarrow> string \<Rightarrow> (error + unit) \<times> disk"
where
  "json_dump dumps val d path =
     (case open_w d path of
        Inl e \<Rightarrow> (Inl e, d)
      | Inr i \<Rightarrow>
          (let t = dumps val;
               w = written d i t
           in (if w = t then Inr () else Inl OSError,
               d\<lparr>data := (data d)(i \<mapsto> Text w)\<rparr>)))"

text \<open>\<^verbatim>\<open>val[key]\<close> with a string key: only a dict can be subscripted by a string.\<close>

fun getitem :: "json \<Rightarrow> string \<Rightarrow> error + json" where
  "getitem (JObject kvs) key =
     (case map_of kvs key of None \<Rightarrow> Inl KeyError | Some v \<Rightarrow> Inr v)"
| "getitem _ key = Inl TypeError"

text \<open>\<^verbatim>\<open>del val[key]\<close> with a string key.\<close>

fun delitem :: "json \<Rightarrow> string \<Rightarrow> error + json" where
  "delitem (JObject kvs) key =
     (case map_of kvs key of
        None \<Rightarrow> Inl KeyError
      | Some _ \<Rightarrow> Inr (JObject (AList.delete key kvs)))"
| "delitem _ key = Inl TypeError"

section \<open>strip\_prime\_cache.py\<close>

text \<open>
  \<^verbatim>\<open>
  def strip_precomputed_primes(infile: str, outfile: str) -> None:
      with open(infile, 'r') as f_in:
          val = json.load(f_in)
      del val['PrecomputedPrimes']
      with open(outfile, 'w') as f_out:
          json.dump(val, f_out)
  \<close>
  The function returns how the call ended and the file system it leaves. The script's
  \<^verbatim>\<open>main\<close> only reads the two required options \<^verbatim>\<open>-i\<close> and \<^verbatim>\<open>-o\<close> and calls this
  function with them.
\<close>

definition strip_precomputed_primes ::
  "(string \<Rightarrow> json option) \<Rightarrow> (json \<Rightarrow> string) \<Rightarrow> string \<Rightarrow> string \<Rightarrow> disk
     \<Rightarrow> (error + unit) \<times> disk"
where
  "strip_precomputed_primes loads dumps infile outfile d =
     (case json_load_disk loads d infile of
        Inl e \<Rightarrow> (Inl e, d)
      | Inr val \<Rightarrow>
          (case delitem val ''PrecomputedPrimes'' of
             Inl e \<Rightarrow> (Inl e, d)
           | Inr val' \<Rightarrow> json_dump dumps val' d outfile))"

section \<open>plot.py\<close>

subsection \<open>The numpy calls\<close>

text \<open>
  \<^verbatim>\<open>np.array(info['GapCounter'])\<close> for a flat list of integers that fit in 64 signed
  bits: the int64 array of the same numbers.
\<close>

fun int64_of :: "json \<Rightarrow> int option" where
  "int64_of (JInt n) = (if - (2 ^ 63) \<le> n \<and> n < 2 ^ 63 then Some n else None)"
| "int64_of _ = None"

fun np_array :: "json \<Rightarrow> error + int list" where
  "np_array (JArray js) =
     (case those (map int64_of js) of None \<Rightarrow> Inl Unmodelled | Some ys \<Rightarrow> Inr ys)"
| "np_array _ = Inl Unmodelled"

text \<open>\<^verbatim>\<open>np.nonzero(ys)\<close>: the indices of the nonzero entries, ascending.\<close>

definition np_nonzero :: "int list \<Rightarrow> nat list" where
  "np_nonzero ys = filter (\<lambda>i. ys ! i \<noteq> 0) [0..<length ys]"

text \<open>
  \<^verbatim>\<open>np.max\<close> of the one-element tuple that \<^verbatim>\<open>np.nonzero\<close> returns for a
  one-dimensional array: the maximum of the indices; when there is none, the reduction
  is over an array of size zero and raises \<^verbatim>\<open>ValueError\<close>.
\<close>

fun np_max :: "nat list \<Rightarrow> error + nat" where
  "np_max [] = Inl ValueError"
| "np_max (i # is) = Inr (fold max is i)"

text \<open>\<^verbatim>\<open>np.arange(n) * 2\<close>.\<close>

definition arange_times_2 :: "nat \<Rightarrow> int list" where
  "arange_times_2 n = map (\<lambda>i. int i * 2) [0..<n]"

text \<open>
  \<^verbatim>\<open>np.log\<close> of one int64 under \<^verbatim>\<open>np.errstate(divide='ignore')\<close>: zero gives negative
  infinity silently, a negative number gives not-a-number (a warning, not an
  exception).
\<close>

definition np_log :: "int \<Rightarrow> np_float" where
  "np_log c = (if c = 0 then NegInf else if c < 0 then NaN else Finite (ln (real_of_int c)))"

text \<open>\<^verbatim>\<open>ax.scatter(xs, ys)\<close>: one point per position; it raises when the sizes differ.\<close>

definition scatter :: "int list \<Rightarrow> np_float list \<Rightarrow> error + (int \<times> np_float) list" where
  "scatter xs ys = (if length xs = length ys then Inr (zip xs ys) else Inl ValueError)"

subsection \<open>The script\<close>

text \<open>
  \<^verbatim>\<open>
  def main():
      with open('info.json', 'r') as f_in:
          info = json.load(f_in)
      num_primes = info['PrimesSoFar']
      ys = np.array(info['GapCounter'])
      last_nonzero_y = np.max(np.nonzero(ys))
      ys = ys[:last_nonzero_y + 1]
      xs = np.arange(len(ys)) * 2
      ys = ys[1:]
      xs = xs[1:]
      with np.errstate(divide='ignore'):
          ys = np.log(ys)
      fig, ax = plt.subplots()
      ax.set_title(f'Log Prime Gaps (First {num_primes} Primes)')
      ax.set_xlabel('Gap Size')
      ax.set_ylabel('log(n)')
      ax.scatter(xs, ys)
      plt.savefig(f'plot_{num_primes}.png')
  \<close>
  The formatting of a value inside an f-string (Python's \<^verbatim>\<open>str\<close>) is a parameter
  \<open>fmt\<close>. The function returns how the run ended and the file system it leaves. It is
  named \<open>plot_main\<close> here, since both scripts have a \<^verbatim>\<open>main\<close>.
\<close>

definition plot_main ::
  "(string \<Rightarrow> json option) \<Rightarrow> (json \<Rightarrow> string) \<Rightarrow> fs \<Rightarrow> (error + unit) \<times> fs"
where
  "plot_main loads fmt files =
     (case json_load loads files ''info.json'' of
        Inl e \<Rightarrow> (Inl e, files)
      | Inr info \<Rightarrow>
     (case getitem info ''PrimesSoFar'' of
        Inl e \<Rightarrow> (Inl e, files)
      | Inr num_primes \<Rightarrow>
     (case getitem info ''GapCounter'' of
        Inl e \<Rightarrow> (Inl e, files)
      | Inr gap_counter \<Rightarrow>
     (case np_array gap_counter of
        Inl e \<Rightarrow> (Inl e, files)
      | Inr ys \<Rightarrow>
     (case np_max (np_nonzero ys) of
        Inl e \<Rightarrow> (Inl e, files)
      | Inr last_nonzero_y \<Rightarrow>
          (let ys1 = take (last_nonzero_y + 1) ys;
               xs1 = arange_times_2 (length ys1);
               ys2 = drop 1 ys1;
               xs2 = drop 1 xs1;
               ys3 = map np_log ys2
           in case scatter xs2 ys3 of
                Inl e \<Rightarrow> (Inl e, files)
              | Inr pts \<Rightarrow>
                  (Inr (),
                   files(''plot_'' @ fmt num_primes @ ''.png'' \<mapsto>
                     Png \<lparr>title = ''Log Prime Gaps (First '' @ fmt num_primes @ '' Primes)'',
                            xlabel = ''Gap Size'',
                            ylabel = ''log(n)'',
                            points = pts\<rparr>))))))))"

section \<open>Sample inputs\<close>

text \<open>
  Concrete reports, and the \<^verbatim>\<open>json\<close> module and \<^verbatim>\<open>str\<close> on them, for running the
  two scripts on concrete inputs. \<open>sample_loads\<close>, \<open>sample_dumps\<close> and \<open>sample_str\<close>
  are what \<^verbatim>\<open>json.loads\<close>, \<^verbatim>\<open>json.dumps\<close> and \<^verbatim>\<open>str\<close> return on the texts and
  documents listed; they are only ever used there.
\<close>

definition full_text :: string where
  \<open>full_text = ''{"PrimesSoFar": 1, "GapCounter": [0], "PrecomputedPrimes": [2, 3, 5]}''\<close>

definition full_report :: "(string \<times> json) list" where
  "full_report =
     [(''PrimesSoFar'', JInt 1), (''GapCounter'', JArray [JInt 0]),
      (''PrecomputedPrimes'', JArray [JInt 2, JInt 3, JInt 5])]"

definition stripped_text :: string where
  \<open>stripped_text = ''{"PrimesSoFar": 1, "GapCounter": [0]}''\<close>

definition stripped_report :: "(string \<times> json) list" where
  "stripped_report = [(''PrimesSoFar'', JInt 1), (''GapCounter'', JArray [JInt 0])]"

definition scenario_a_text :: string where
  \<open>scenario_a_text = ''{"PrimesSoFar": 100, "GapCounter": [5, 0, 3, 0, 0]}''\<close>

definition scenario_a :: "(string \<times> json) list" where
  "scenario_a =
     [(''PrimesSoFar'', JInt 100),
      (''GapCounter'', JArray [JInt 5, JInt 0, JInt 3, JInt 0, JInt 0])]"

definition scenario_b_text :: string where
  \<open>scenario_b_text = ''{"PrimesSoFar": 50, "GapCounter": [0, 0, 0]}''\<close>

definition scenario_b :: "(string \<times> json) list" where
  "scenario_b =
     [(''PrimesSoFar'', JInt 50), (''GapCounter'', JArray [JInt 0, JInt 0, JInt 0])]"

definition index_0_text :: string where
  \<open>index_0_text = ''{"PrimesSoFar": 7, "GapCounter": [5, 0, 0]}''\<close>

definition index_0_report :: "(string \<times> json) list" where
  "index_0_report =
     [(''PrimesSoFar'', JInt 7), (''GapCounter'', JArray [JInt 5, JInt 0, JInt 0])]"

definition sample_loads :: "string \<Rightarrow> json option" where
  "sample_loads =
     map_of
       [(full_text, JObject full_report),
        (stripped_text, JObject stripped_report),
        (scenario_a_text, JObject scenario_a),
        (scenario_b_text, JObject scenario_b),
        (index_0_text, JObject index_0_report)]"

definition sample_dumps :: "json \<Rightarrow> string" where
  "sample_dumps v =
     (if v = JObject full_report then full_text
      else if v = JObject stripped_report then stripped_text
      else [])"

definition sample_str :: "json \<Rightarrow> string" where
  "sample_str v =
     (if v = JInt 1 then ''1''
      else if v = JInt 7 then ''7''
      else if v = JInt 50 then ''50''
      else if v = JInt 100 then ''100''
      else [])"

text \<open>
  A disk for \<^verbatim>\<open>strip_prime_cache.py\<close>: file 0 is the full report, reached as
  \<^verbatim>\<open>full.json\<close> and as \<^verbatim>\<open>./full.json\<close>; file 1 does not exist yet and would be
  created at \<^verbatim>\<open>small.json\<close>; file 2 is a report without \<^verbatim>\<open>PrecomputedPrimes\<close>, at
  \<^verbatim>\<open>stripped.json\<close>; no other path leads to a file. Everything may be read and
  written, and every write completes.
\<close>

definition sample_disk :: disk where
  "sample_disk =
     \<lparr>node = (\<lambda>path.
               if path = ''full.json'' \<or> path = ''./full.json'' then Inr 0
               else if path = ''small.json'' then Inr 1
               else if path = ''stripped.json'' then Inr 2
               else Inl FileNotFoundError),
      data = [0 \<mapsto> Text full_text, 2 \<mapsto> Text stripped_text],
      may_read = (\<lambda>i. True),
      may_write = (\<lambda>i. True),
      written = (\<lambda>i t. t)\<rparr>"

section \<open>Properties of strip\_prime\_cache.py\<close>

lemmas sample_defs =
  sample_loads_def sample_dumps_def sample_str_def full_text_def full_report_def
  stripped_text_def stripped_report_def scenario_a_text_def scenario_a_def
  scenario_b_text_def scenario_b_def index_0_text_def index_0_report_def

text \<open>
  C1. When the input file holds a JSON mapping that has the key \<^verbatim>\<open>PrecomputedPrimes\<close>,
  the output path opens for writing and the write completes, the call succeeds and the
  output file, parsed again, is the input mapping without that key: the remaining keys
  keep their values and their order. This holds of the text in the output file, and of
  \<^verbatim>\<open>json.load\<close> on the output path when the file may be read. The \<^verbatim>\<open>json\<close> module
  is assumed to read back the document it has just written.
\<close>

theorem strip_roundtrip_minus_field:
  assumes "json_load_disk loads d infile = Inr (JObject kvs)"
    and "map_of kvs ''PrecomputedPrimes'' = Some p"
    and "open_w d outfile = Inr i"
    and "written d i (dumps (JObject (AList.delete ''PrecomputedPrimes'' kvs)))
           = dumps (JObject (AList.delete ''PrecomputedPrimes'' kvs))"
    and "loads (dumps (JObject (AList.delete ''PrecomputedPrimes'' kvs)))
           = Some (JObject (AList.delete ''PrecomputedPrimes'' kvs))"
  shows "\<exists>d' out kvs'.
           strip_precomputed_primes loads dumps infile outfile d = (Inr (), d')
         \<and> open_w d' outfile = Inr i
         \<and> data d' i = Some (Text out)
         \<and> loads out = Some (JObject kvs')
         \<and> (may_read d i \<longrightarrow> json_load_disk loads d' outfile = Inr (JObject kvs'))
         \<and> map_of kvs' = (map_of kvs)(''PrecomputedPrimes'' := None)
         \<and> kvs' = AList.delete ''PrecomputedPrimes'' kvs"
proof -
  let ?kvs' = "AList.delete ''PrecomputedPrimes'' kvs"
  let ?out = "dumps (JObject ?kvs')"
  let ?d' = "d\<lparr>data := (data d)(i \<mapsto> Text ?out)\<rparr>"
  have run: "strip_precomputed_primes loads dumps infile outfile d = (Inr (), ?d')"
    using assms(1-4) by (simp add: strip_precomputed_primes_def json_dump_def Let_def)
  have n: "node d outfile = Inr i"
    using assms(3) by (auto simp: open_w_def split: sum.splits if_splits)
  have w: "open_w ?d' outfile = Inr i"
    using assms(3) by (auto simp: open_w_def split: sum.splits if_splits)
  have c: "data ?d' i = Some (Text ?out)" by simp
  have r: "may_read d i \<longrightarrow> json_load_disk loads ?d' outfile = Inr (JObject ?kvs')"
    using n assms(5) by (simp add: json_load_disk_def open_r_def)
  have m: "map_of ?kvs' = (map_of kvs)(''PrecomputedPrimes'' := None)"
    by (rule delete_conv')
  from run w c assms(5) r m show ?thesis by blast
qed

theorem strip_roundtrip_minus_field_witness:
  "json_load_disk sample_loads sample_disk ''full.json'' = Inr (JObject full_report)
   \<and> map_of full_report ''PrecomputedPrimes'' = Some (JArray [JInt 2, JInt 3, JInt 5])
   \<and> open_w sample_disk ''small.json'' = Inr 1
   \<and> data sample_disk 1 = None
   \<and> (\<exists>d'. strip_precomputed_primes sample_loads sample_dumps ''full.json'' ''small.json''
               sample_disk = (Inr (), d')
           \<and> data d' 1 = Some (Text stripped_text)
           \<and> json_load_disk sample_loads d' ''small.json'' = Inr (JObject stripped_report))
   \<and> sample_loads stripped_text = Some (JObject stripped_report)
   \<and> map_of stripped_report = (map_of full_report)(''PrecomputedPrimes'' := None)"
proof -
  have h1: "json_load_disk sample_loads sample_disk ''full.json'' = Inr (JObject full_report)"
    by (simp add: json_load_disk_def open_r_def sample_disk_def sample_defs)
  have h2: "map_of full_report ''PrecomputedPrimes'' = Some (JArray [JInt 2, JInt 3, JInt 5])"
    by (simp add: full_report_def)
  have h3: "open_w sample_disk ''small.json'' = Inr 1"
    by (simp add: open_w_def sample_disk_def)
  have del: "AList.delete ''PrecomputedPrimes'' full_report = stripped_report"
    by (simp add: full_report_def stripped_report_def)
  have out: "sample_dumps (JObject stripped_report) = stripped_text"
    by (simp add: sample_dumps_def full_report_def stripped_report_def)
  have h4: "written sample_disk 1 (sample_dumps (JObject (AList.delete ''PrecomputedPrimes'' full_report)))
              = sample_dumps (JObject (AList.delete ''PrecomputedPrimes'' full_report))"
    by (simp add: sample_disk_def)
  have h5: "sample_loads (sample_dumps (JObject (AList.delete ''PrecomputedPrimes'' full_report)))
              = Some (JObject (AList.delete ''PrecomputedPrimes'' full_report))"
    unfolding del out by (simp add: sample_defs)
  have rd: "may_read sample_disk 1" and nf: "data sample_disk 1 = None"
    by (simp_all add: sample_disk_def)
  from strip_roundtrip_minus_field
         [where loads = sample_loads and dumps = sample_dumps, OF h1 h2 h3 h4 h5]
  obtain d' out' kvs' where
    a: "strip_precomputed_primes sample_loads sample_dumps ''full.json'' ''small.json''
          sample_disk = (Inr (), d')"
    and b: "data d' 1 = Some (Text out')"
    and c: "may_read sample_disk 1 \<longrightarrow>
              json_load_disk sample_loads d' ''small.json'' = Inr (JObject kvs')"
    and e: "kvs' = AList.delete ''PrecomputedPrimes'' full_report"
    and f: "map_of kvs' = (map_of full_report)(''PrecomputedPrimes'' := None)"
    by blast
  from a have "data d' 1 = Some (Text stripped_text)"
    using h1 h2 h3 out del
    by (auto simp: strip_precomputed_primes_def json_dump_def Let_def sample_disk_def)
  moreover from c rd e del
  have "json_load_disk sample_loads d' ''small.json'' = Inr (JObject stripped_report)" by simp
  moreover have "sample_loads stripped_text = Some (JObject stripped_report)"
    by (simp add: sample_defs)
  moreover from f e del
  have "map_of stripped_report = (map_of full_report)(''PrecomputedPrimes'' := None)" by simp
  ultimately show ?thesis using a h1 h2 h3 nf by blast
qed

text \<open>
  C2. When the input file holds a JSON mapping without the key \<^verbatim>\<open>PrecomputedPrimes\<close>,
  the call ends with \<^verbatim>\<open>KeyError\<close> and the file system is left as it was: nothing is
  written to the output path.
\<close>

theorem strip_missing_field_fails:
  assumes "json_load_disk loads d infile = Inr (JObject kvs)"
    and "map_of kvs ''PrecomputedPrimes'' = None"
  shows "strip_precomputed_primes loads dumps infile outfile d = (Inl KeyError, d)"
  using assms by (simp add: strip_precomputed_primes_def)

theorem strip_missing_field_fails_witness:
  "json_load_disk sample_loads sample_disk ''stripped.json'' = Inr (JObject stripped_report)
   \<and> map_of stripped_report ''PrecomputedPrimes'' = None
   \<and> strip_precomputed_primes sample_loads sample_dumps ''stripped.json'' ''small.json''
        sample_disk
      = (Inl KeyError, sample_disk)
   \<and> open_w sample_disk ''small.json'' = Inr 1
   \<and> data sample_disk 1 = None"
proof -
  have h1: "json_load_disk sample_loads sample_disk ''stripped.json''
              = Inr (JObject stripped_report)"
    by (simp add: json_load_disk_def open_r_def sample_disk_def sample_defs)
  have h2: "map_of stripped_report ''PrecomputedPrimes'' = None"
    by (simp add: stripped_report_def)
  have o: "open_w sample_disk ''small.json'' = Inr 1" and nf: "data sample_disk 1 = None"
    by (simp_all add: open_w_def sample_disk_def)
  from strip_missing_field_fails
         [where loads = sample_loads and dumps = sample_dumps and outfile = "''small.json''",
          OF h1 h2] h1 h2 o nf
  show ?thesis by simp
qed

text \<open>
  C8. The claim that the input file is never modified, whatever the two paths, fails
  when the output path leads to the input file: the stripped document then replaces
  the input. This happens when the output path is the input path, and also when it is
  another spelling of it.
\<close>

theorem strip_input_unchanged_counterexample:
  "node sample_disk ''full.json'' = Inr 0
   \<and> data sample_disk 0 = Some (Text full_text)
   \<and> data (snd (strip_precomputed_primes sample_loads sample_dumps ''full.json'' ''full.json''
                  sample_disk)) 0
       = Some (Text stripped_text)
   \<and> data (snd (strip_precomputed_primes sample_loads sample_dumps ''full.json'' ''./full.json''
                  sample_disk)) 0
       = Some (Text stripped_text)
   \<and> Text stripped_text \<noteq> Text full_text"
  by (simp add: strip_precomputed_primes_def json_load_disk_def open_r_def open_w_def
      json_dump_def Let_def sample_disk_def sample_defs)

text \<open>
  C8, amended. When the output path does not lead to the file that the input path leads
  to, the content of the input file after the call is what it was before the call,
  whether the call succeeds or fails. What counts is the file the two paths lead to,
  not how they are spelled.
\<close>

theorem strip_input_unchanged_distinct_files:
  assumes "node d infile = Inr i"
    and "node d outfile \<noteq> Inr i"
  shows "data (snd (strip_precomputed_primes loads dumps infile outfile d)) i = data d i"
proof -
  have "data (snd (json_dump dumps v d outfile)) i = data d i" for v
    using assms(2)
    by (auto simp: json_dump_def open_w_def Let_def split: sum.splits if_splits)
  then show ?thesis
    by (simp add: strip_precomputed_primes_def split: sum.splits)
qed

theorem strip_input_unchanged_distinct_files_witness:
  "node sample_disk ''full.json'' = Inr 0
   \<and> node sample_disk ''small.json'' = Inr 1
   \<and> fst (strip_precomputed_primes sample_loads sample_dumps ''full.json'' ''small.json''
             sample_disk) = Inr ()
   \<and> data (snd (strip_precomputed_primes sample_loads sample_dumps ''full.json'' ''small.json''
                  sample_disk)) 0 = Some (Text full_text)
   \<and> data (snd (strip_precomputed_primes sample_loads sample_dumps ''full.json'' ''small.json''
                  sample_disk)) 1 = Some (Text stripped_text)"
proof -
  have h1: "node sample_disk ''full.json'' = Inr 0"
    and n2: "node sample_disk ''small.json'' = Inr 1"
    and c: "data sample_disk 0 = Some (Text full_text)"
    by (simp_all add: sample_disk_def)
  from n2 have h2: "node sample_disk ''small.json'' \<noteq> Inr 0" by simp
  have ok: "fst (strip_precomputed_primes sample_loads sample_dumps ''full.json'' ''small.json''
                   sample_disk) = Inr ()"
    and out: "data (snd (strip_precomputed_primes sample_loads sample_dumps ''full.json''
                           ''small.json'' sample_disk)) 1 = Some (Text stripped_text)"
    by (simp_all add: strip_precomputed_primes_def json_load_disk_def open_r_def open_w_def
        json_dump_def Let_def sample_disk_def sample_defs)
  from strip_input_unchanged_distinct_files
         [where loads = sample_loads and dumps = sample_dumps, OF h1 h2] h1 n2 c ok out
  show ?thesis by simp
qed

section \<open>Properties of plot.py\<close>

subsection \<open>The numpy calls on a list of counts\<close>

lemma np_array_ints:
  assumes "\<forall>c\<in>set cs. - (2 ^ 63) \<le> c \<and> c < 2 ^ 63"
  shows "np_array (JArray (map JInt cs)) = Inr cs"
proof -
  from assms have "those (map int64_of (map JInt cs)) = Some cs"
    by (induction cs) simp_all
  then show ?thesis by simp
qed

lemma np_max_Max: "is \<noteq> [] \<Longrightarrow> np_max is = Inr (Max (set is))"
  by (cases "is") (simp_all add: Max.set_eq_fold [symmetric] del: list.set set_simps)

lemma np_max_nonzero:
  assumes "m < length cs" and "cs ! m \<noteq> 0"
    and "\<forall>i. m < i \<and> i < length cs \<longrightarrow> cs ! i = 0"
  shows "np_max (np_nonzero cs) = Inr m"
proof -
  have mem: "m \<in> set (np_nonzero cs)"
    using assms(1,2) by (simp add: np_nonzero_def)
  then have ne: "np_nonzero cs \<noteq> []" by auto
  have "Max (set (np_nonzero cs)) = m"
  proof (rule Max_eqI)
    show "finite (set (np_nonzero cs))" by simp
    show "m \<in> set (np_nonzero cs)" by (rule mem)
    fix i assume "i \<in> set (np_nonzero cs)"
    then have "i < length cs" and "cs ! i \<noteq> 0" by (simp_all add: np_nonzero_def)
    with assms(3) show "i \<le> m" by (meson not_le_imp_less)
  qed
  with ne show ?thesis by (simp add: np_max_Max)
qed

lemma np_max_all_zero:
  assumes "\<forall>c\<in>set cs. c = 0"
  shows "np_max (np_nonzero cs) = Inl ValueError"
proof -
  from assms have "np_nonzero cs = []"
    by (auto simp: np_nonzero_def filter_empty_conv)
  then show ?thesis by simp
qed

lemma scatter_points:
  assumes "m < length cs"
  shows "scatter (drop 1 (arange_times_2 (length (take (m + 1) cs))))
                 (map np_log (drop 1 (take (m + 1) cs)))
         = Inr (map (\<lambda>i. (int i * 2, np_log (cs ! i))) [1..<m + 1])"
proof -
  let ?xs = "drop 1 (arange_times_2 (length (take (m + 1) cs)))"
  let ?ys = "map np_log (drop 1 (take (m + 1) cs))"
  have lx: "length ?xs = m"
    using assms by (simp add: arange_times_2_def del: upt_Suc)
  have ly: "length ?ys = m"
    using assms by simp
  have "zip ?xs ?ys = map (\<lambda>i. (int i * 2, np_log (cs ! i))) [1..<m + 1]"
  proof (rule nth_equalityI)
    show "length (zip ?xs ?ys) = length (map (\<lambda>i. (int i * 2, np_log (cs ! i))) [1..<m + 1])"
      using lx ly by (simp del: upt_Suc)
    fix k assume "k < length (zip ?xs ?ys)"
    then have "k < m" using lx ly by simp
    then show "zip ?xs ?ys ! k = map (\<lambda>i. (int i * 2, np_log (cs ! i))) [1..<m + 1] ! k"
      using assms by (simp add: arange_times_2_def nth_drop del: upt_Suc)
  qed
  with lx ly show ?thesis by (simp add: scatter_def)
qed

subsection \<open>The run on a report with a nonzero count\<close>

text \<open>
  When \<^verbatim>\<open>info.json\<close> parses to a mapping with \<^verbatim>\<open>PrimesSoFar\<close> and with a
  \<^verbatim>\<open>GapCounter\<close> list \<open>cs\<close> of int64 counts whose highest nonzero index is \<open>m\<close>, the
  run succeeds and writes one image, whose points are \<open>(2 i, log (cs ! i))\<close> for
  \<open>i = 1, \<dots>, m\<close>, in this order.
\<close>

lemma plot_main_success:
  assumes "json_load loads files ''info.json'' = Inr (JObject kvs)"
    and "map_of kvs ''PrimesSoFar'' = Some n"
    and "map_of kvs ''GapCounter'' = Some (JArray (map JInt cs))"
    and "\<forall>c\<in>set cs. - (2 ^ 63) \<le> c \<and> c < 2 ^ 63"
    and "m < length cs" and "cs ! m \<noteq> 0"
    and "\<forall>i. m < i \<and> i < length cs \<longrightarrow> cs ! i = 0"
  shows "plot_main loads fmt files =
           (Inr (),
            files(''plot_'' @ fmt n @ ''.png'' \<mapsto>
              Png \<lparr>title = ''Log Prime Gaps (First '' @ fmt n @ '' Primes)'',
                     xlabel = ''Gap Size'',
                     ylabel = ''log(n)'',
                     points = map (\<lambda>i. (int i * 2, np_log (cs ! i))) [1..<m + 1]\<rparr>))"
proof -
  have a: "np_array (JArray (map JInt cs)) = Inr cs"
    using assms(4) by (rule np_array_ints)
  have b: "np_max (np_nonzero cs) = Inr m"
    using assms(5-7) by (rule np_max_nonzero)
  have c: "scatter (drop 1 (arange_times_2 (length (take (m + 1) cs))))
                   (map np_log (drop 1 (take (m + 1) cs)))
           = Inr (map (\<lambda>i. (int i * 2, np_log (cs ! i))) [1..<m + 1])"
    using assms(5) by (rule scatter_points)
  show ?thesis
    unfolding plot_main_def Let_def
    by (simp only: assms(1-3) a b c getitem.simps sum.case option.case)
qed

subsection \<open>Gap sizes after the drop of index 0\<close>

lemma arange_tail_ge_2: "x \<in> set (drop 1 (arange_times_2 k)) \<Longrightarrow> 2 \<le> x"
  by (auto simp: arange_times_2_def drop_map)

lemma scatter_fst: "scatter xs ys = Inr pts \<Longrightarrow> p \<in> set pts \<Longrightarrow> fst p \<in> set xs"
  by (cases p) (auto simp: scatter_def split: if_splits dest: set_zip_leftD)

subsection \<open>The run on the report of Scenario A\<close>

lemma sample_a_parsed:
  "json_load sample_loads [''info.json'' \<mapsto> Text scenario_a_text] ''info.json''
     = Inr (JObject scenario_a)"
  by (simp add: json_load_def sample_defs)

lemma sample_a_run:
  "plot_main sample_loads sample_str [''info.json'' \<mapsto> Text scenario_a_text] =
     (Inr (),
      [''info.json'' \<mapsto> Text scenario_a_text,
       ''plot_100.png'' \<mapsto>
         Png \<lparr>title = ''Log Prime Gaps (First 100 Primes)'',
              xlabel = ''Gap Size'',
              ylabel = ''log(n)'',
              points = [(2, NegInf), (4, Finite (ln 3))]\<rparr>])"
proof -
  have "plot_main sample_loads sample_str [''info.json'' \<mapsto> Text scenario_a_text] =
     (Inr (),
      [''info.json'' \<mapsto> Text scenario_a_text](''plot_'' @ sample_str (JInt 100) @ ''.png'' \<mapsto>
         Png \<lparr>title = ''Log Prime Gaps (First '' @ sample_str (JInt 100) @ '' Primes)'',
              xlabel = ''Gap Size'',
              ylabel = ''log(n)'',
              points = map (\<lambda>i. (int i * 2, np_log ([5, 0, 3, 0, 0] ! i))) [1..<2 + 1]\<rparr>))"
    by (rule plot_main_success [OF sample_a_parsed, where m = 2])
       (simp_all add: scenario_a_def nth_Cons')
  moreover have "[1..<2 + 1] = [1, 2::nat]" by (simp add: upt_rec)
  ultimately show ?thesis by (simp add: sample_str_def np_log_def)
qed

subsection \<open>The claims\<close>

text \<open>
  C3. On the report \<^verbatim>\<open>{"PrimesSoFar": 100, "GapCounter": [5,0,3,0,0]}\<close> the last
  nonzero index is 2, the counts kept are those of indices 0 to 2, and the run writes
  an image whose points are exactly \<open>(2, log 0)\<close> and \<open>(4, log 3)\<close>, where \<open>log 0\<close> is
  negative infinity and \<open>log 3\<close> is the finite value \<open>ln 3\<close>.
\<close>

theorem plot_scenario_a:
  assumes "json_load loads files ''info.json'' =
             Inr (JObject [(''PrimesSoFar'', JInt 100),
                           (''GapCounter'', JArray [JInt 5, JInt 0, JInt 3, JInt 0, JInt 0])])"
  shows "np_max (np_nonzero [5, 0, 3, 0, 0]) = Inr 2
       \<and> take (2 + 1) [5, 0, 3, 0, 0 :: int] = [5, 0, 3]
       \<and> drop 1 (arange_times_2 (length [5, 0, 3 :: int])) = [2, 4]
       \<and> map np_log (drop 1 [5, 0, 3]) = [np_log 0, np_log 3]
       \<and> np_log 0 = NegInf \<and> np_log 3 = Finite (ln 3)
       \<and> plot_main loads fmt files =
           (Inr (),
            files(''plot_'' @ fmt (JInt 100) @ ''.png'' \<mapsto>
              Png \<lparr>title = ''Log Prime Gaps (First '' @ fmt (JInt 100) @ '' Primes)'',
                   xlabel = ''Gap Size'',
                   ylabel = ''log(n)'',
                   points = [(2, NegInf), (4, Finite (ln 3))]\<rparr>))"
proof -
  have m: "np_max (np_nonzero [5, 0, 3, 0, 0]) = Inr 2"
    by (simp add: np_nonzero_def upt_rec)
  have xs: "drop 1 (arange_times_2 (length [5, 0, 3 :: int])) = [2, 4]"
    by (simp add: arange_times_2_def upt_rec)
  have l0: "np_log 0 = NegInf" and l3: "np_log 3 = Finite (ln 3)"
    by (simp_all add: np_log_def)
  have "plot_main loads fmt files =
          (Inr (),
           files(''plot_'' @ fmt (JInt 100) @ ''.png'' \<mapsto>
             Png \<lparr>title = ''Log Prime Gaps (First '' @ fmt (JInt 100) @ '' Primes)'',
                  xlabel = ''Gap Size'',
                  ylabel = ''log(n)'',
                  points = map (\<lambda>i. (int i * 2, np_log ([5, 0, 3, 0, 0] ! i))) [1..<2 + 1]\<rparr>))"
    by (rule plot_main_success [OF assms, where m = 2]) (simp_all add: nth_Cons')
  moreover have "[1..<2 + 1] = [1, 2::nat]" by (simp add: upt_rec)
  ultimately have "plot_main loads fmt files =
          (Inr (),
           files(''plot_'' @ fmt (JInt 100) @ ''.png'' \<mapsto>
             Png \<lparr>title = ''Log Prime Gaps (First '' @ fmt (JInt 100) @ '' Primes)'',
                  xlabel = ''Gap Size'',
                  ylabel = ''log(n)'',
                  points = [(2, NegInf), (4, Finite (ln 3))]\<rparr>))"
    by (simp add: l0 l3)
  with m xs l0 l3 show ?thesis by simp
qed

theorem plot_scenario_a_witness:
  "json_load sample_loads [''info.json'' \<mapsto> Text scenario_a_text] ''info.json'' =
     Inr (JObject [(''PrimesSoFar'', JInt 100),
                   (''GapCounter'', JArray [JInt 5, JInt 0, JInt 3, JInt 0, JInt 0])])
   \<and> plot_main sample_loads sample_str [''info.json'' \<mapsto> Text scenario_a_text] =
       (Inr (),
        [''info.json'' \<mapsto> Text scenario_a_text,
         ''plot_100.png'' \<mapsto>
           Png \<lparr>title = ''Log Prime Gaps (First 100 Primes)'',
                xlabel = ''Gap Size'',
                ylabel = ''log(n)'',
                points = [(2, NegInf), (4, Finite (ln 3))]\<rparr>])"
proof -
  have h: "json_load sample_loads [''info.json'' \<mapsto> Text scenario_a_text] ''info.json'' =
             Inr (JObject [(''PrimesSoFar'', JInt 100),
                           (''GapCounter'', JArray [JInt 5, JInt 0, JInt 3, JInt 0, JInt 0])])"
    using sample_a_parsed by (simp add: scenario_a_def)
  from plot_scenario_a [OF h, where fmt = sample_str] h
  show ?thesis by (simp add: sample_str_def)
qed

text \<open>
  C4. When no entry of \<^verbatim>\<open>GapCounter\<close> is nonzero (the empty list included), the run
  ends with the \<^verbatim>\<open>ValueError\<close> that \<^verbatim>\<open>np.max\<close> raises on an empty array, and the file
  system is left as it was: no image is written. (Without \<^verbatim>\<open>PrimesSoFar\<close> in the
  report the run has ended before, with \<^verbatim>\<open>KeyError\<close>, and has written nothing
  either.)
\<close>

theorem plot_all_zero_fails:
  assumes "json_load loads files ''info.json'' = Inr (JObject kvs)"
    and "map_of kvs ''GapCounter'' = Some (JArray (map JInt cs))"
    and "\<forall>c\<in>set cs. c = 0"
  shows "plot_main loads fmt files =
           (Inl (if map_of kvs ''PrimesSoFar'' = None then KeyError else ValueError), files)"
proof -
  from assms(3) have "\<forall>c\<in>set cs. - (2 ^ 63) \<le> c \<and> c < 2 ^ 63" by auto
  then have a: "np_array (JArray (map JInt cs)) = Inr cs" by (rule np_array_ints)
  have b: "np_max (np_nonzero cs) = Inl ValueError"
    using assms(3) by (rule np_max_all_zero)
  show ?thesis
    unfolding plot_main_def
    by (cases "map_of kvs ''PrimesSoFar''") (simp_all add: assms(1,2) a b del: np_array.simps)
qed

theorem plot_all_zero_fails_witness:
  "json_load sample_loads [''info.json'' \<mapsto> Text scenario_b_text] ''info.json''
     = Inr (JObject scenario_b)
   \<and> map_of scenario_b ''GapCounter'' = Some (JArray (map JInt [0, 0, 0]))
   \<and> list_all (\<lambda>c. c = 0) [0, 0, 0 :: int]
   \<and> plot_main sample_loads sample_str [''info.json'' \<mapsto> Text scenario_b_text]
       = (Inl ValueError, [''info.json'' \<mapsto> Text scenario_b_text])"
proof -
  have h1: "json_load sample_loads [''info.json'' \<mapsto> Text scenario_b_text] ''info.json''
              = Inr (JObject scenario_b)"
    by (simp add: json_load_def sample_defs)
  have h2: "map_of scenario_b ''GapCounter'' = Some (JArray (map JInt [0, 0, 0]))"
    by (simp add: scenario_b_def)
  have h3: "\<forall>c\<in>set [0, 0, 0 :: int]. c = 0" by simp
  have p: "map_of scenario_b ''PrimesSoFar'' = Some (JInt 50)"
    by (simp add: scenario_b_def)
  from plot_all_zero_fails [OF h1 h2 h3, where fmt = sample_str] h1 h2 p
  show ?thesis by simp
qed





text \<open>
  C7. Whatever the input, when the run writes an image, the image is the only change
  to the file system and none of its points has gap size 0: every gap size plotted is
  at least 2, so the pair of index 0 is not among the points.
\<close>

theorem plot_index_0_dropped:
  assumes "plot_main loads fmt files = (Inr (), files')"
  shows "\<exists>name fig. files' = files(name \<mapsto> Png fig)
           \<and> (\<forall>p\<in>set (points fig). fst p \<noteq> 0 \<and> 2 \<le> fst p)"
proof -
  from assms obtain name t k ys pts where
    w: "files' = files(name \<mapsto>
          Png \<lparr>title = t, xlabel = ''Gap Size'', ylabel = ''log(n)'', points = pts\<rparr>)"
    and s: "scatter (drop 1 (arange_times_2 k)) ys = Inr pts"
    unfolding plot_main_def Let_def
    by (auto split: sum.splits)
  have "\<forall>p\<in>set pts. fst p \<noteq> 0 \<and> 2 \<le> fst p"
  proof
    fix p assume "p \<in> set pts"
    with s have "fst p \<in> set (drop 1 (arange_times_2 k))" by (rule scatter_fst)
    then have "2 \<le> fst p" by (rule arange_tail_ge_2)
    then show "fst p \<noteq> 0 \<and> 2 \<le> fst p" by simp
  qed
  with w show ?thesis
    by (intro exI [of _ name]
          exI [of _ "\<lparr>title = t, xlabel = ''Gap Size'', ylabel = ''log(n)'', points = pts\<rparr>"])
       simp
qed

theorem plot_index_0_dropped_witness:
  "plot_main sample_loads sample_str [''info.json'' \<mapsto> Text scenario_a_text] =
     (Inr (),
      [''info.json'' \<mapsto> Text scenario_a_text,
       ''plot_100.png'' \<mapsto>
         Png \<lparr>title = ''Log Prime Gaps (First 100 Primes)'',
              xlabel = ''Gap Size'',
              ylabel = ''log(n)'',
              points = [(2, NegInf), (4, Finite (ln 3))]\<rparr>])
   \<and> (\<exists>name fig.
         [''info.json'' \<mapsto> Text scenario_a_text,
          ''plot_100.png'' \<mapsto>
            Png \<lparr>title = ''Log Prime Gaps (First 100 Primes)'',
                 xlabel = ''Gap Size'',
                 ylabel = ''log(n)'',
                 points = [(2, NegInf), (4, Finite (ln 3))]\<rparr>]
         = [''info.json'' \<mapsto> Text scenario_a_text, name \<mapsto> Png fig]
       \<and> list_all (\<lambda>p. fst p \<noteq> 0 \<and> 2 \<le> fst p) (points fig))"
  using plot_index_0_dropped [OF sample_a_run] sample_a_run
  by (simp add: list_all_iff)





end
